theory Spec2Isabelle
  imports Main "HOL-Library.Word" "HOL-Library.Sublist"
begin

unbundle bit_operations_syntax

section \<open>Bytes, strings and the library routines used by the codec\<close>

text \<open>
  A Go \<open>byte\<close> is an 8-bit word, a \<open>[]byte\<close> a list of bytes and a \<open>[16]byte\<close> a list
  of bytes of length 16. A Go \<open>string\<close> is a sequence of bytes too, kept here as a HOL
  \<open>string\<close> (characters are 8 bits wide); the conversions \<open>[]byte(s)\<close> and
  \<open>string(b)\<close> are \<open>bytes_of\<close> and \<open>string_of\<close>.
\<close>

type_synonym byte = "8 word"

definition bytes_of :: "string \<Rightarrow> byte list" where
  "bytes_of s = map of_char s"

definition string_of :: "byte list \<Rightarrow> string" where
  "string_of bs = map (\<lambda>b. char_of (unat b)) bs"

text \<open>Go's \<open>s[a:b]\<close> and \<open>copy(dst, src)\<close> (which copies \<open>min (len dst) (len src)\<close> elements).\<close>

definition slice :: "nat \<Rightarrow> nat \<Rightarrow> 'a list \<Rightarrow> 'a list" where
  "slice a b xs = take (b - a) (drop a xs)"

definition copy_bytes :: "byte list \<Rightarrow> byte list \<Rightarrow> byte list" where
  "copy_bytes dst src = take (length dst) src @ drop (length src) dst"

text \<open>The verb \<open>%d\<close> of \<open>fmt\<close> on a length (a non-negative \<open>int\<close>).\<close>

fun decimal :: "nat \<Rightarrow> string" where
  "decimal n =
     (if n < 10 then [char_of (48 + n)]
      else decimal (n div 10) @ [char_of (48 + n mod 10)])"

declare decimal.simps [simp del]

text \<open>
  The interface values the conversions receive. \<open>IByteSlice None\<close> is a nil slice,
  \<open>IStringPtr None\<close> a nil \<open>*string\<close>; \<open>IObj t n\<close> is a value of any other dynamic type
  \<open>t\<close>, an object named by its identity \<open>n\<close>. A dynamic type is comparable (a pointer,
  a struct of comparable fields) or not (a slice, a map, a function, a struct that holds
  one); two values of one comparable type are equal when they are the same object.
\<close>

datatype dyn_type = Comparable nat | Uncomparable nat

datatype iface =
    INil
  | IByteArray "byte list"
  | IByteSlice "byte list option"
  | IString string
  | IStringPtr "string option"
  | IObj dyn_type nat

text \<open>
  Errors. \<open>Errorf m\<close> is the value of \<open>fmt.Errorf\<close> with the formatted message \<open>m\<close>;
  \<open>CannotConvert v\<close> is \<open>fmt.Errorf("cannot convert %v to UUID", v)\<close>, whose text depends
  on the dynamic type of \<open>v\<close>; \<open>InvalidByteError\<close> and \<open>ErrLength\<close> are the two errors of
  \<open>encoding/hex\<close>; \<open>DelegateError n\<close> is an error made by code outside this file.
\<close>

datatype error =
    Errorf string
  | CannotConvert iface
  | InvalidByteError byte
  | ErrLength
  | DelegateError nat

subsection \<open>encoding/hex and the verb \<open>%x\<close>\<close>

definition fromHexChar :: "byte \<Rightarrow> byte option" where
  "fromHexChar c =
     (if 0x30 \<le> c \<and> c \<le> 0x39 then Some (c - 0x30)
      else if 0x61 \<le> c \<and> c \<le> 0x66 then Some (c - 0x61 + 10)
      else if 0x41 \<le> c \<and> c \<le> 0x46 then Some (c - 0x41 + 10)
      else None)"

text \<open>
  \<open>hex.Decode\<close>: pairs of digits from the left, the first invalid byte stops the loop;
  a trailing single byte is reported as invalid if it is, as \<open>ErrLength\<close> otherwise.
  The result is the bytes decoded so far and the error.
\<close>

fun hex_Decode :: "byte list \<Rightarrow> byte list \<times> error option" where
  "hex_Decode [] = ([], None)"
| "hex_Decode [p] =
     (case fromHexChar p of
        None \<Rightarrow> ([], Some (InvalidByteError p))
      | Some a \<Rightarrow> ([], Some ErrLength))"
| "hex_Decode (p # q # rest) =
     (case fromHexChar p of
        None \<Rightarrow> ([], Some (InvalidByteError p))
      | Some a \<Rightarrow>
          (case fromHexChar q of
             None \<Rightarrow> ([], Some (InvalidByteError q))
           | Some b \<Rightarrow>
               (case hex_Decode rest of
                  (bs, e) \<Rightarrow> ((push_bit 4 a OR b) # bs, e))))"

definition hex_DecodeString :: "string \<Rightarrow> byte list \<times> error option" where
  "hex_DecodeString s = hex_Decode (bytes_of s)"

text \<open>\<open>%x\<close> on a byte slice: two digits of \<open>ldigits\<close> for each byte, high nibble first.\<close>

definition ldigits :: string where
  "ldigits = ''0123456789abcdefx''"

definition fmt_x :: "byte list \<Rightarrow> string" where
  "fmt_x bs = concat (map (\<lambda>c. [ldigits ! unat (drop_bit 4 c), ldigits ! unat (c AND 0xF)]) bs)"

section \<open>The canonical textual form\<close>

definition parseUUID :: "string \<Rightarrow> error + byte list" where
  "parseUUID src =
     (let hex = (\<lambda>s. case hex_DecodeString s of
                       (buf, Some err) \<Rightarrow> Inl err
                     | (buf, None) \<Rightarrow> Inr (copy_bytes (replicate 16 0) buf))
      in if length src = 36
         then hex (slice 0 8 src @ slice 9 13 src @ slice 14 18 src @ slice 19 23 src @ drop 24 src)
         else if length src = 32 then hex src
         else Inl (Errorf (''cannot parse UUID '' @ src)))"

definition encodeUUID :: "byte list \<Rightarrow> string" where
  "encodeUUID src =
     fmt_x (slice 0 4 src) @ ''-'' @ fmt_x (slice 4 6 src) @ ''-'' @ fmt_x (slice 6 8 src)
       @ ''-'' @ fmt_x (slice 8 10 src) @ ''-'' @ fmt_x (slice 10 16 src)"

section \<open>The container\<close>

text \<open>
  The struct \<open>UUID\<close>. The two hooks are optional function values: the decoder-wrapper
  resolver maps a destination to a decoder object (named by its identity) or to nil, the
  getter override maps the value fields of the container to an interface value.
  A destination is a pointer (\<open>None\<close> when nil) to a cell of the memory, or any other
  value \<open>DObj n\<close>; the memory maps addresses to cells.
\<close>

type_synonym addr = nat

datatype dest =
    DArrayPtr "addr option"
  | DSlicePtr "addr option"
  | DStringPtr "addr option"
  | DObj nat

datatype cell =
    CArray "byte list"
  | CSlice "byte list option"
  | CString string
  | COther nat

type_synonym store = "addr \<Rightarrow> cell"

record UUID =
  Bytes :: "byte list"
  Valid :: bool
  UUIDDecoderWrapper :: "(dest \<Rightarrow> nat option) option"
  Getter :: "(byte list \<times> bool \<Rightarrow> iface) option"

text \<open>
  What \<open>uuid.go\<close> calls and does not define: the \<open>Get()\<close> method
  of a source object (\<open>None\<close> when the object has no such method), the resolver
  \<open>underlyingUUIDType\<close>, the interface \<open>UUIDDecoder\<close> with its method \<open>DecodeUUID\<close>, and
  the helpers \<open>NullAssignTo\<close> and \<open>GetAssignToDstType\<close>. They are parameters of the model;
  those that write through a destination take the memory and return it.
\<close>

record framework =
  Get_method :: "dyn_type \<Rightarrow> nat \<Rightarrow> iface option"
  underlyingUUIDType :: "iface \<Rightarrow> iface option"
  implements_UUIDDecoder :: "nat \<Rightarrow> bool"
  DecodeUUID :: "nat \<Rightarrow> UUID \<Rightarrow> store \<Rightarrow> error option \<times> store"
  NullAssignTo :: "dest \<Rightarrow> store \<Rightarrow> error option \<times> store"
  GetAssignToDstType :: "dest \<Rightarrow> store \<Rightarrow> dest option \<times> store"

text \<open>A \<open>[]byte\<close> argument is \<open>None\<close> when nil; \<open>elems\<close> are its elements, \<open>append\<close> Go's.\<close>

fun elems :: "byte list option \<Rightarrow> byte list" where
  "elems None = []"
| "elems (Some bs) = bs"

definition append :: "byte list option \<Rightarrow> byte list \<Rightarrow> byte list option" where
  "append buf xs = (if xs = [] then buf else Some (elems buf @ xs))"

definition setNil :: "UUID \<Rightarrow> UUID" where
  "setNil dst = dst\<lparr>Bytes := replicate 16 0, Valid := False\<rparr>"

definition setByteArray :: "byte list \<Rightarrow> UUID \<Rightarrow> UUID" where
  "setByteArray v dst = dst\<lparr>Bytes := v, Valid := True\<rparr>"

definition setByteSlice :: "byte list option \<Rightarrow> UUID \<Rightarrow> error option \<times> UUID" where
  "setByteSlice v dst =
     (case v of
        Some bs \<Rightarrow>
          if length bs \<noteq> 16
          then (Some (Errorf (''[]byte must be 16 bytes to convert to UUID: '' @ decimal (length bs))), dst)
          else (None, dst\<lparr>Bytes := copy_bytes (Bytes dst) bs, Valid := True\<rparr>)
      | None \<Rightarrow> (None, setNil dst))"

definition setString :: "string \<Rightarrow> UUID \<Rightarrow> error option \<times> UUID" where
  "setString v dst =
     (case parseUUID v of
        Inl err \<Rightarrow> (Some err, dst)
      | Inr uuid \<Rightarrow> (None, setByteArray uuid dst))"

text \<open>A call returns a value or panics.\<close>

datatype 'a outcome = Return 'a | Panic

text \<open>
  Go's \<open>value2 != value\<close> on interface values, \<open>value\<close> being the object \<open>n\<close> of dynamic
  type \<open>t\<close>: values of different dynamic types differ, two values of one comparable
  type differ when they are not the same object, and the comparison of two values of one
  uncomparable type panics.
\<close>

definition not_equal :: "iface \<Rightarrow> dyn_type \<Rightarrow> nat \<Rightarrow> bool outcome" where
  "not_equal value2 t n =
     (case value2 of
        IObj t2 n2 \<Rightarrow>
          if t2 = t
          then (case t of Comparable c \<Rightarrow> Return (n2 \<noteq> n) | Uncomparable u \<Rightarrow> Panic)
          else Return True
      | _ \<Rightarrow> Return True)"

text \<open>
  The guard of \<open>Set\<close> on sources with a \<open>Get()\<close> method: the unwrapped value, when the
  source has the method and the value differs from the source. Of the values of \<open>iface\<close>
  only objects can have methods.
\<close>

definition unwrapped :: "framework \<Rightarrow> iface \<Rightarrow> iface option outcome" where
  "unwrapped fw src =
     (case src of
        IObj t n \<Rightarrow>
          (case Get_method fw t n of
             Some value2 \<Rightarrow>
               (case not_equal value2 t n of
                  Panic \<Rightarrow> Panic
                | Return ne \<Rightarrow> Return (if ne then Some value2 else None))
           | None \<Rightarrow> Return None)
      | _ \<Rightarrow> Return None)"

text \<open>
  \<open>Set\<close> calls itself on what a source unwraps to; \<open>None\<close> is a call that never comes
  to an end.
\<close>

partial_function (option) Set ::
  "framework \<Rightarrow> iface \<Rightarrow> UUID \<Rightarrow> (error option \<times> UUID) outcome option" where
  "Set fw src dst =
     (if src = INil then Some (Return (None, setNil dst))
      else case unwrapped fw src of
        Panic \<Rightarrow> Some Panic
      | Return (Some value2) \<Rightarrow> Set fw value2 dst
      | Return None \<Rightarrow>
          (case src of
             IByteArray v \<Rightarrow> Some (Return (None, setByteArray v dst))
           | IByteSlice v \<Rightarrow> Some (Return (setByteSlice v dst))
           | IString v \<Rightarrow> Some (Return (setString v dst))
           | IStringPtr v \<Rightarrow>
               (case v of
                  None \<Rightarrow> Some (Return (None, setNil dst))
                | Some s \<Rightarrow> Some (Return (setString s dst)))
           | _ \<Rightarrow>
               (case underlyingUUIDType fw src of
                  Some originalSrc \<Rightarrow> Set fw originalSrc dst
                | None \<Rightarrow> Some (Return (Some (CannotConvert src), dst)))))"

declare Set.simps [code]

definition Get :: "UUID \<Rightarrow> iface" where
  "Get dst =
     (case Getter dst of
        Some g \<Rightarrow> g (Bytes dst, Valid dst)
      | None \<Rightarrow> if \<not> Valid dst then INil else IByteArray (Bytes dst))"

section \<open>Extraction into a destination\<close>

text \<open>
  A call of \<open>AssignTo\<close> returns an error or nil and the memory it leaves, or panics (a
  write through a nil pointer); \<open>None\<close> is a call that never comes to an end.
\<close>

definition decoder_for :: "framework \<Rightarrow> UUID \<Rightarrow> dest \<Rightarrow> nat option" where
  "decoder_for fw src dst =
     (case (case dst of DObj n \<Rightarrow> if implements_UUIDDecoder fw n then Some n else None
                     | _ \<Rightarrow> None) of
        Some d \<Rightarrow> Some d
      | None \<Rightarrow>
          (case UUIDDecoderWrapper src of
             Some wrapper \<Rightarrow> wrapper dst
           | None \<Rightarrow> None))"

partial_function (option) AssignTo ::
  "framework \<Rightarrow> UUID \<Rightarrow> dest \<Rightarrow> store \<Rightarrow> (error option \<times> store) outcome option" where
  "AssignTo fw src dst st =
     (case decoder_for fw src dst of
        Some d \<Rightarrow> Some (Return (DecodeUUID fw d src st))
      | None \<Rightarrow>
          if \<not> Valid src then Some (Return (NullAssignTo fw dst st))
          else
            (case dst of
               DArrayPtr v \<Rightarrow>
                 (case v of
                    None \<Rightarrow> Some Panic
                  | Some a \<Rightarrow> Some (Return (None, st(a := CArray (Bytes src)))))
             | DSlicePtr v \<Rightarrow>
                 (case v of
                    None \<Rightarrow> Some Panic
                  | Some a \<Rightarrow>
                      Some (Return (None, st(a := CSlice (Some (copy_bytes (replicate 16 0) (Bytes src)))))))
             | DStringPtr v \<Rightarrow>
                 (case v of
                    None \<Rightarrow> Some Panic
                  | Some a \<Rightarrow> Some (Return (None, st(a := CString (encodeUUID (Bytes src))))))
             | DObj n \<Rightarrow>
                 (case GetAssignToDstType fw dst st of
                    (Some nextDst, st') \<Rightarrow> AssignTo fw src nextDst st'
                  | (None, st') \<Rightarrow> Some (Return (None, st')))))"

declare AssignTo.simps [code]

section \<open>Wire protocol codec\<close>

definition DecodeText :: "byte list option \<Rightarrow> UUID \<Rightarrow> error option \<times> UUID" where
  "DecodeText src dst =
     (case src of
        None \<Rightarrow> (None, setNil dst)
      | Some bs \<Rightarrow>
          if length bs \<noteq> 36
          then (Some (Errorf (''invalid length for UUID: '' @ decimal (length bs))), dst)
          else
            (case parseUUID (string_of bs) of
               Inl err \<Rightarrow> (Some err, dst)
             | Inr buf \<Rightarrow> (None, setByteArray buf dst)))"

definition DecodeBinary :: "byte list option \<Rightarrow> UUID \<Rightarrow> error option \<times> UUID" where
  "DecodeBinary src dst =
     (case src of
        None \<Rightarrow> (None, setNil dst)
      | Some bs \<Rightarrow>
          if length bs \<noteq> 16
          then (Some (Errorf (''invalid length for UUID: '' @ decimal (length bs))), dst)
          else setByteSlice src dst)"

definition EncodeText :: "UUID \<Rightarrow> byte list option \<Rightarrow> byte list option \<times> error option" where
  "EncodeText src buf =
     (if \<not> Valid src then (None, None)
      else (append buf (bytes_of (encodeUUID (Bytes src))), None))"

definition EncodeBinary :: "UUID \<Rightarrow> byte list option \<Rightarrow> byte list option \<times> error option" where
  "EncodeBinary src buf =
     (if \<not> Valid src then (None, None)
      else (append buf (Bytes src), None))"

section \<open>JSON\<close>

definition MarshalJSON :: "UUID \<Rightarrow> byte list option \<times> error option" where
  "MarshalJSON src =
     (if \<not> Valid src then (Some (bytes_of ''null''), None)
      else (Some (bytes_of ([CHR 0x22] @ encodeUUID (Bytes src) @ [CHR 0x22])), None))"

definition UnmarshalJSON ::
  "framework \<Rightarrow> byte list option \<Rightarrow> UUID \<Rightarrow> (error option \<times> UUID) outcome option" where
  "UnmarshalJSON fw src dst =
     (if elems src = bytes_of ''null'' then Set fw INil dst
      else if length (elems src) \<noteq> 38
      then Some (Return (Some (Errorf (''invalid length for UUID: '' @ decimal (length (elems src)))), dst))
      else Set fw (IString (string_of (slice 1 (length (elems src) - 1) (elems src)))) dst)"

text \<open>A framework none of whose objects has a capability, for running the code.\<close>

definition bare :: framework where
  "bare = \<lparr>Get_method = (\<lambda>t n. None), underlyingUUIDType = (\<lambda>v. None),
           implements_UUIDDecoder = (\<lambda>n. False),
           DecodeUUID = (\<lambda>d u st. (None, st)),
           NullAssignTo = (\<lambda>d st. (None, st)),
           GetAssignToDstType = (\<lambda>d st. (None, st))\<rparr>"

definition empty_UUID :: UUID where
  "empty_UUID = \<lparr>Bytes = replicate 16 0, Valid = False, UUIDDecoderWrapper = None, Getter = None\<rparr>"

section \<open>The specification's notions\<close>

text \<open>
  The specification's text form of a byte sequence: lowercase hexadecimal, two digits
  for each byte (zero-padded), the more significant digit first.
\<close>

definition lowercase_hex :: "byte list \<Rightarrow> string" where
  "lowercase_hex bs =
     concat (map (\<lambda>c. [''0123456789abcdef'' ! (unat c div 16),
                        ''0123456789abcdef'' ! (unat c mod 16)]) bs)"

text \<open>The hexadecimal digits, of either case.\<close>

definition is_hex_digit :: "char \<Rightarrow> bool" where
  "is_hex_digit c = (c \<in> set ''0123456789abcdefABCDEF'')"





definition overridden :: UUID where
  "overridden = empty_UUID\<lparr>Getter := Some (\<lambda>v. IString ''override'')\<rparr>"

text \<open>
  A valid container, the same container with a decoder-wrapper resolver that gives the
  decoder object 9 for every destination, a memory, a framework with one decoder object
  that fails, and a framework whose \<open>NullAssignTo\<close> fails.
\<close>

definition sample_UUID :: UUID where
  "sample_UUID =
     \<lparr>Bytes = [0xa0,0xee,0xbc,0x99,0x9c,0x0b,0x4e,0xf8,0xbb,0x6d,0x6b,0xb9,0xbd,0x38,0x0a,0x11],
      Valid = True, UUIDDecoderWrapper = None, Getter = None\<rparr>"

definition wrapped_UUID :: UUID where
  "wrapped_UUID = sample_UUID\<lparr>UUIDDecoderWrapper := Some (\<lambda>d. Some 9)\<rparr>"

definition blank :: store where
  "blank = (\<lambda>a. COther 0)"

definition failing :: framework where
  "failing = bare\<lparr>implements_UUIDDecoder := (\<lambda>n. n = 7),
                   DecodeUUID := (\<lambda>d u st. (Some (DelegateError 1), st))\<rparr>"

definition null_failing :: framework where
  "null_failing = bare\<lparr>NullAssignTo := (\<lambda>d st. (Some (DelegateError 2), st))\<rparr>"

section \<open>Hexadecimal digits\<close>

lemma list16:
  "length (xs::'a list) = 16 \<Longrightarrow>
   \<exists>b0 b1 b2 b3 b4 b5 b6 b7 b8 b9 b10 b11 b12 b13 b14 b15.
     xs = [b0,b1,b2,b3,b4,b5,b6,b7,b8,b9,b10,b11,b12,b13,b14,b15]"
  by (auto simp add: eval_nat_numeral length_Suc_conv)

lemma hi_nibble_less: "unat (drop_bit 4 (c::byte)) < 16"
proof -
  have "unat c < 256" using unsigned_less [of c] by simp
  then show ?thesis unfolding unat_drop_bit_eq by (simp add: drop_bit_eq_div)
qed

lemma lo_nibble_less: "unat ((c::byte) AND 0xF) < 16"
  using word_and_le1 [of c "0xF", THEN word_le_nat_alt [THEN iffD1]] by simp

lemma nibbles_recombine: "push_bit 4 (drop_bit 4 (c::byte)) OR (c AND 0xF) = c"
proof -
  have m: "(0xF::byte) = mask 4" by (simp add: mask_eq_exp_minus_1)
  show ?thesis unfolding m by (rule bit_word_eqI) (auto simp: bit_simps)
qed

lemma fromHexChar_ldigits:
  "n < 16 \<Longrightarrow> fromHexChar (of_char (ldigits ! n)) = Some (of_nat n)"
  apply (simp add: eval_nat_numeral less_Suc_eq)
  apply (elim disjE; simp add: ldigits_def fromHexChar_def)
  done

lemma ldigits_lower:
  "n < 16 \<Longrightarrow> ldigits ! n \<in> set ''0123456789abcdef''"
  apply (simp add: eval_nat_numeral less_Suc_eq)
  apply (elim disjE; simp add: ldigits_def)
  done

lemma fromHexChar_hi:
  "fromHexChar (of_char (ldigits ! unat (drop_bit 4 (c::byte)))) = Some (drop_bit 4 c)"
  using fromHexChar_ldigits [OF hi_nibble_less, of c] by simp

lemma fromHexChar_lo:
  "fromHexChar (of_char (ldigits ! unat ((c::byte) AND 0xF))) = Some (c AND 0xF)"
  using fromHexChar_ldigits [OF lo_nibble_less, of c] by simp

lemma fmt_x_Nil: "fmt_x [] = []"
  by (simp add: fmt_x_def)

lemma fmt_x_Cons:
  "fmt_x (c # bs) = ldigits ! unat (drop_bit 4 c) # ldigits ! unat (c AND 0xF) # fmt_x bs"
  by (simp add: fmt_x_def)

lemma length_fmt_x: "length (fmt_x bs) = 2 * length bs"
  by (induction bs) (simp_all add: fmt_x_Nil fmt_x_Cons)

lemma set_fmt_x: "set (fmt_x bs) \<subseteq> set ''0123456789abcdef''"
proof (induction bs)
  case Nil
  show ?case by (simp add: fmt_x_Nil)
next
  case (Cons c bs)
  have "ldigits ! unat (drop_bit 4 c) \<in> set ''0123456789abcdef''"
    by (rule ldigits_lower [OF hi_nibble_less])
  moreover have "ldigits ! unat (c AND 0xF) \<in> set ''0123456789abcdef''"
    by (rule ldigits_lower [OF lo_nibble_less])
  ultimately show ?case using Cons by (simp add: fmt_x_Cons)
qed

lemma hex_Decode_fmt_x: "hex_Decode (bytes_of (fmt_x bs)) = (bs, None)"
  by (induction bs)
     (simp_all add: fmt_x_Nil fmt_x_Cons bytes_of_def fromHexChar_hi fromHexChar_lo
        nibbles_recombine)

section \<open>Formatting and parsing\<close>

lemma encodeUUID_groups:
  assumes "length b = 16"
  shows "encodeUUID b = fmt_x (take 4 b) @ ''-'' @ fmt_x (take 2 (drop 4 b)) @ ''-''
           @ fmt_x (take 2 (drop 6 b)) @ ''-'' @ fmt_x (take 2 (drop 8 b)) @ ''-''
           @ fmt_x (drop 10 b)"
  using assms by (simp add: encodeUUID_def slice_def)

lemma strip_encodeUUID:
  assumes "length b = 16"
  shows "slice 0 8 (encodeUUID b) @ slice 9 13 (encodeUUID b) @ slice 14 18 (encodeUUID b)
           @ slice 19 23 (encodeUUID b) @ drop 24 (encodeUUID b) = fmt_x b"
proof -
  from list16 [OF assms] obtain b0 b1 b2 b3 b4 b5 b6 b7 b8 b9 b10 b11 b12 b13 b14 b15
    where b: "b = [b0,b1,b2,b3,b4,b5,b6,b7,b8,b9,b10,b11,b12,b13,b14,b15]" by blast
  show ?thesis unfolding b by (simp add: encodeUUID_def slice_def fmt_x_Cons fmt_x_Nil)
qed

lemma length_encodeUUID: "length b = 16 \<Longrightarrow> length (encodeUUID b) = 36"
  by (simp add: encodeUUID_groups length_fmt_x)

lemma parseUUID_encodeUUID:
  assumes "length b = 16"
  shows "parseUUID (encodeUUID b) = Inr b"
  using assms
  by (simp add: parseUUID_def length_encodeUUID strip_encodeUUID hex_DecodeString_def
        hex_Decode_fmt_x copy_bytes_def)

lemma unat_hi_nibble: "unat (drop_bit 4 (c::byte)) = unat c div 16"
  unfolding unat_drop_bit_eq by (simp add: drop_bit_eq_div)

lemma unat_lo_nibble: "unat ((c::byte) AND 0xF) = unat c mod 16"
proof -
  have m: "(0xF::byte) = mask 4" by (simp add: mask_eq_exp_minus_1)
  have "unat (c AND mask 4) = unat (take_bit 4 c)" by (simp only: take_bit_eq_mask)
  also have "\<dots> = take_bit 4 (unat c)" by (rule unsigned_take_bit_eq)
  also have "\<dots> = unat c mod 16" by (simp add: take_bit_eq_mod)
  finally show ?thesis unfolding m .
qed

lemma ldigits_nth: "n < 16 \<Longrightarrow> ldigits ! n = ''0123456789abcdef'' ! n"
  apply (simp add: eval_nat_numeral less_Suc_eq)
  apply (elim disjE; simp add: ldigits_def)
  done

lemma fmt_x_lowercase_hex: "fmt_x bs = lowercase_hex bs"
proof (induction bs)
  case Nil
  show ?case by (simp add: fmt_x_Nil lowercase_hex_def)
next
  case (Cons c bs)
  have "ldigits ! unat (drop_bit 4 c) = ''0123456789abcdef'' ! (unat c div 16)"
    using ldigits_nth [OF hi_nibble_less, of c] by (simp only: unat_hi_nibble)
  moreover have "ldigits ! unat (c AND 0xF) = ''0123456789abcdef'' ! (unat c mod 16)"
    using ldigits_nth [OF lo_nibble_less, of c] by (simp only: unat_lo_nibble)
  ultimately show ?case using Cons by (simp add: fmt_x_Cons lowercase_hex_def)
qed

lemma fmt_x_nth_lower: "k < 2 * length bs \<Longrightarrow> fmt_x bs ! k \<in> set ''0123456789abcdef''"
  using set_fmt_x [of bs] nth_mem [of k "fmt_x bs"] by (auto simp only: length_fmt_x)

lemma encodeUUID_chars:
  assumes "length b = 16" and "i < 36"
  shows "if i \<in> {8, 13, 18, 23} then encodeUUID b ! i = CHR ''-''
         else encodeUUID b ! i \<in> set ''0123456789abcdef''"
proof -
  from list16 [OF assms(1)] obtain b0 b1 b2 b3 b4 b5 b6 b7 b8 b9 b10 b11 b12 b13 b14 b15
    where b: "b = [b0,b1,b2,b3,b4,b5,b6,b7,b8,b9,b10,b11,b12,b13,b14,b15]" by blast
  have hi: "\<And>c. ldigits ! unat (drop_bit 4 (c::byte)) \<in> set ''0123456789abcdef''"
    by (rule ldigits_lower [OF hi_nibble_less])
  have lo: "\<And>c. ldigits ! unat ((c::byte) AND 0xF) \<in> set ''0123456789abcdef''"
    by (rule ldigits_lower [OF lo_nibble_less])
  have e: "encodeUUID b = fmt_x [b0,b1,b2,b3] @ ''-'' @ fmt_x [b4,b5] @ ''-'' @ fmt_x [b6,b7]
     @ ''-'' @ fmt_x [b8,b9] @ ''-'' @ fmt_x [b10,b11,b12,b13,b14,b15]"
    unfolding b by (simp add: encodeUUID_def slice_def)
  have "\<forall>i<36. if i \<in> {8, 13, 18, 23} then encodeUUID b ! i = CHR ''-''
         else encodeUUID b ! i \<in> set ''0123456789abcdef''"
    unfolding e fmt_x_Cons fmt_x_Nil
    using hi lo
    by (simp add: eval_nat_numeral All_less_Suc del: set_simps)
  with assms(2) show ?thesis by blast
qed

text \<open>
  C1. For every 16-byte array \<open>b\<close>, parsing the text that \<open>encodeUUID\<close> makes of \<open>b\<close> gives
  \<open>b\<close> back. The text has 36 characters: a dash at the indices 8, 13, 18 and 23, a
  lowercase hexadecimal digit everywhere else, and it is the two-digit lowercase
  hexadecimal form of the bytes in groups of 4, 2, 2, 2 and 6 bytes.
\<close>

theorem parse_format_roundtrip:
  assumes "length b = 16"
  shows "parseUUID (encodeUUID b) = Inr b \<and>
         length (encodeUUID b) = 36 \<and>
         (\<forall>i<36. if i \<in> {8, 13, 18, 23} then encodeUUID b ! i = CHR ''-''
                 else encodeUUID b ! i \<in> set ''0123456789abcdef'') \<and>
         encodeUUID b =
           lowercase_hex (take 4 b) @ ''-'' @ lowercase_hex (take 2 (drop 4 b)) @ ''-''
             @ lowercase_hex (take 2 (drop 6 b)) @ ''-'' @ lowercase_hex (take 2 (drop 8 b))
             @ ''-'' @ lowercase_hex (drop 10 b)"
proof (intro conjI)
  show "parseUUID (encodeUUID b) = Inr b" by (rule parseUUID_encodeUUID [OF assms])
  show "length (encodeUUID b) = 36" by (rule length_encodeUUID [OF assms])
  show "\<forall>i<36. if i \<in> {8, 13, 18, 23} then encodeUUID b ! i = CHR ''-''
                 else encodeUUID b ! i \<in> set ''0123456789abcdef''"
    using encodeUUID_chars [OF assms] by blast
  show "encodeUUID b =
           lowercase_hex (take 4 b) @ ''-'' @ lowercase_hex (take 2 (drop 4 b)) @ ''-''
             @ lowercase_hex (take 2 (drop 6 b)) @ ''-'' @ lowercase_hex (take 2 (drop 8 b))
             @ ''-'' @ lowercase_hex (drop 10 b)"
    using encodeUUID_groups [OF assms] by (simp only: fmt_x_lowercase_hex)
qed

lemma encodeUUID_example:
  "encodeUUID [0xa0,0xee,0xbc,0x99,0x9c,0x0b,0x4e,0xf8,0xbb,0x6d,0x6b,0xb9,0xbd,0x38,0x0a,0x11]
     = ''a0eebc99-9c0b-4ef8-bb6d-6bb9bd380a11''"
  by code_simp

theorem parse_format_roundtrip_witness:
  "length [0xa0,0xee,0xbc,0x99,0x9c,0x0b,0x4e,0xf8,0xbb,0x6d,0x6b,0xb9,0xbd,0x38,0x0a,0x11 :: byte] = 16 \<and>
   encodeUUID [0xa0,0xee,0xbc,0x99,0x9c,0x0b,0x4e,0xf8,0xbb,0x6d,0x6b,0xb9,0xbd,0x38,0x0a,0x11]
     = ''a0eebc99-9c0b-4ef8-bb6d-6bb9bd380a11'' \<and>
   parseUUID ''a0eebc99-9c0b-4ef8-bb6d-6bb9bd380a11''
     = Inr [0xa0,0xee,0xbc,0x99,0x9c,0x0b,0x4e,0xf8,0xbb,0x6d,0x6b,0xb9,0xbd,0x38,0x0a,0x11]"
proof -
  have l: "length [0xa0,0xee,0xbc,0x99,0x9c,0x0b,0x4e,0xf8,0xbb,0x6d,0x6b,0xb9,0xbd,0x38,0x0a,0x11 :: byte] = 16"
    by simp
  have p: "parseUUID (encodeUUID [0xa0,0xee,0xbc,0x99,0x9c,0x0b,0x4e,0xf8,0xbb,0x6d,0x6b,0xb9,0xbd,0x38,0x0a,0x11])
     = Inr [0xa0,0xee,0xbc,0x99,0x9c,0x0b,0x4e,0xf8,0xbb,0x6d,0x6b,0xb9,0xbd,0x38,0x0a,0x11]"
    by (rule parse_format_roundtrip [OF l, THEN conjunct1])
  show ?thesis
    by (intro conjI) (rule l, rule encodeUUID_example, rule p [unfolded encodeUUID_example])
qed

section \<open>Parsing: lengths and errors\<close>

lemma unat_of_char: "unat (of_char c :: byte) = of_char c"
proof -
  have "(of_char c :: byte) = of_nat (of_char c)" by (simp add: of_nat_of_char)
  then have "unat (of_char c :: byte) = (of_char c :: nat) mod 256"
    by (simp only: unat_of_nat) simp
  then show ?thesis by simp
qed

lemma fromHexChar_nat:
  "fromHexChar w \<noteq> None \<longleftrightarrow>
     (48 \<le> unat w \<and> unat w \<le> 57) \<or> (97 \<le> unat w \<and> unat w \<le> 102) \<or> (65 \<le> unat w \<and> unat w \<le> 70)"
  by (auto simp add: fromHexChar_def word_le_nat_alt)

lemma range_cases:
  "(48 \<le> n \<and> n \<le> 57) \<or> (97 \<le> n \<and> n \<le> 102) \<or> (65 \<le> n \<and> n \<le> 70) \<longleftrightarrow>
   n \<in> {48,49,50,51,52,53,54,55,56,57,97,98,99,100,101,102,65,66,67,68,69,70::nat}"
  by (simp only: insert_iff empty_iff) presburger

lemma fromHexChar_is_hex_digit: "fromHexChar (of_char c) \<noteq> None \<longleftrightarrow> is_hex_digit c"
proof -
  have c: "c = char_of (of_char c :: nat)" by simp
  have "is_hex_digit c \<longleftrightarrow> (of_char c :: nat) \<in> {48,49,50,51,52,53,54,55,56,57,97,98,99,100,101,102,65,66,67,68,69,70}"
    unfolding is_hex_digit_def
    by (subst c) (simp add: char_of_eq_iff take_bit_eq_mod del: char_of_char)
  then show ?thesis
    by (simp only: fromHexChar_nat unat_of_char range_cases)
qed

lemma hex_Decode_ok_iff:
  "even (length xs) \<Longrightarrow> snd (hex_Decode xs) = None \<longleftrightarrow> (\<forall>x\<in>set xs. fromHexChar x \<noteq> None)"
  by (induction xs rule: hex_Decode.induct) (auto split: option.splits prod.splits)

lemma hex_Decode_length:
  "snd (hex_Decode xs) = None \<Longrightarrow> length (fst (hex_Decode xs)) = length xs div 2"
  by (induction xs rule: hex_Decode.induct) (auto split: option.splits prod.splits)

lemma hex_Decode_error:
  "even (length xs) \<Longrightarrow> snd (hex_Decode xs) = Some e \<Longrightarrow>
     \<exists>c\<in>set xs. e = InvalidByteError c \<and> fromHexChar c = None"
  by (induction xs rule: hex_Decode.induct) (auto split: option.splits prod.splits)

lemma set_slice:
  "b \<le> length xs \<Longrightarrow> set (slice a b xs) = {xs ! i | i. a \<le> i \<and> i < b}"
proof (cases "a \<le> b")
  case False
  then show ?thesis by (auto simp: slice_def)
next
  case True
  assume b: "b \<le> length xs"
  have "slice a b xs = map (nth xs) [a..<b]"
    unfolding slice_def using True b
    by (intro nth_equalityI) (auto simp: nth_append)
  then show ?thesis by auto
qed

lemma set_drop_nth: "set (drop a xs) = {xs ! i | i. a \<le> i \<and> i < length xs}"
  using set_slice [of "length xs" xs a] by (simp add: slice_def)

lemma dashless_index:
  "i < 36 \<and> i \<notin> {8, 13, 18, 23::nat} \<longleftrightarrow>
     i < 8 \<or> (9 \<le> i \<and> i < 13) \<or> (14 \<le> i \<and> i < 18) \<or> (19 \<le> i \<and> i < 23) \<or> (24 \<le> i \<and> i < 36)"
  by (simp only: insert_iff empty_iff) presburger

lemma set_dashless:
  assumes "length src = 36"
  shows "set (slice 0 8 src @ slice 9 13 src @ slice 14 18 src @ slice 19 23 src @ drop 24 src)
     = {src ! i | i. i < 36 \<and> i \<notin> {8, 13, 18, 23}}"
proof -
  have "set (slice 0 8 src @ slice 9 13 src @ slice 14 18 src @ slice 19 23 src @ drop 24 src)
     = {src ! i | i. i < 8 \<or> (9 \<le> i \<and> i < 13) \<or> (14 \<le> i \<and> i < 18) \<or> (19 \<le> i \<and> i < 23)
           \<or> (24 \<le> i \<and> i < 36)}"
    using assms by (simp add: set_slice set_drop_nth) blast
  then show ?thesis by (simp only: dashless_index)
qed

lemma ball_dashless:
  assumes "length src = 36"
  shows "(\<forall>c\<in>set (slice 0 8 src @ slice 9 13 src @ slice 14 18 src @ slice 19 23 src @ drop 24 src). P c)
     \<longleftrightarrow> (\<forall>i<36. i \<notin> {8, 13, 18, 23} \<longrightarrow> P (src ! i))"
  unfolding set_dashless [OF assms] by blast

lemma length_dashless:
  "length src = 36 \<Longrightarrow>
   length (slice 0 8 src @ slice 9 13 src @ slice 14 18 src @ slice 19 23 src @ drop 24 src) = 32"
  by (simp add: slice_def)

lemma hex_DecodeString_32:
  assumes "length s = 32"
  shows "(\<exists>buf. hex_DecodeString s = (buf, None)) \<longleftrightarrow> (\<forall>c\<in>set s. is_hex_digit c)"
    and "hex_DecodeString s = (buf, None) \<Longrightarrow> copy_bytes (replicate 16 0) buf = buf"
proof -
  have ev: "even (length (bytes_of s))" using assms by (simp add: bytes_of_def)
  have "(\<exists>buf. hex_DecodeString s = (buf, None)) \<longleftrightarrow> snd (hex_Decode (bytes_of s)) = None"
    by (cases "hex_Decode (bytes_of s)") (simp add: hex_DecodeString_def)
  also have "\<dots> \<longleftrightarrow> (\<forall>x\<in>set (bytes_of s). fromHexChar x \<noteq> None)"
    by (rule hex_Decode_ok_iff [OF ev])
  also have "\<dots> \<longleftrightarrow> (\<forall>c\<in>set s. is_hex_digit c)"
    by (simp add: bytes_of_def fromHexChar_is_hex_digit [symmetric])
  finally show "(\<exists>buf. hex_DecodeString s = (buf, None)) \<longleftrightarrow> (\<forall>c\<in>set s. is_hex_digit c)" .
  assume d: "hex_DecodeString s = (buf, None)"
  then have "length buf = 16"
    using hex_Decode_length [of "bytes_of s"] assms by (simp add: hex_DecodeString_def bytes_of_def)
  then show "copy_bytes (replicate 16 0) buf = buf" by (simp add: copy_bytes_def)
qed

lemma parse_hex_32:
  assumes "length s = 32"
  shows "(\<exists>b. (case hex_DecodeString s of (buf, Some err) \<Rightarrow> Inl err
                | (buf, None) \<Rightarrow> Inr (copy_bytes (replicate 16 0) buf)) = Inr b)
         \<longleftrightarrow> (\<forall>c\<in>set s. is_hex_digit c)"
  unfolding hex_DecodeString_32(1) [OF assms, symmetric]
  by (cases "hex_DecodeString s") (auto split: option.splits)

text \<open>
  C2, as amended. \<open>parseUUID\<close> accepts two lengths. A text of 36 characters parses
  exactly when the characters outside the indices 8, 13, 18 and 23 are hexadecimal
  digits (what stands at those four indices is not looked at); a text of 32 characters
  parses exactly when all its characters are hexadecimal digits; in both cases the
  result is what the hex decoder returns and an error of the hex decoder is returned
  as it is. A text of any other length fails with the error whose message is
  \<open>cannot parse UUID\<close> followed by the text itself.
\<close>

theorem parseUUID_lengths:
  "(length src \<noteq> 36 \<and> length src \<noteq> 32 \<longrightarrow>
      parseUUID src = Inl (Errorf (''cannot parse UUID '' @ src))) \<and>
   (length src = 36 \<longrightarrow>
      ((\<exists>b. parseUUID src = Inr b) \<longleftrightarrow> (\<forall>i<36. i \<notin> {8, 13, 18, 23} \<longrightarrow> is_hex_digit (src ! i))) \<and>
      (\<forall>buf. hex_DecodeString (slice 0 8 src @ slice 9 13 src @ slice 14 18 src
                 @ slice 19 23 src @ drop 24 src) = (buf, None) \<longrightarrow> parseUUID src = Inr buf) \<and>
      (\<forall>buf e. hex_DecodeString (slice 0 8 src @ slice 9 13 src @ slice 14 18 src
                 @ slice 19 23 src @ drop 24 src) = (buf, Some e) \<longrightarrow> parseUUID src = Inl e)) \<and>
   (length src = 32 \<longrightarrow>
      ((\<exists>b. parseUUID src = Inr b) \<longleftrightarrow> (\<forall>i<32. is_hex_digit (src ! i))) \<and>
      (\<forall>buf. hex_DecodeString src = (buf, None) \<longrightarrow> parseUUID src = Inr buf) \<and>
      (\<forall>buf e. hex_DecodeString src = (buf, Some e) \<longrightarrow> parseUUID src = Inl e))"
proof (intro conjI impI allI)
  assume "length src \<noteq> 36 \<and> length src \<noteq> 32"
  then show "parseUUID src = Inl (Errorf (''cannot parse UUID '' @ src))"
    by (simp add: parseUUID_def)
next
  assume l: "length src = 36"
  show "(\<exists>b. parseUUID src = Inr b) \<longleftrightarrow> (\<forall>i<36. i \<notin> {8, 13, 18, 23} \<longrightarrow> is_hex_digit (src ! i))"
    using parse_hex_32 [OF length_dashless [OF l]] l
    unfolding ball_dashless [OF l] by (simp add: parseUUID_def)
next
  fix buf
  assume l: "length src = 36"
    and d: "hex_DecodeString (slice 0 8 src @ slice 9 13 src @ slice 14 18 src
                 @ slice 19 23 src @ drop 24 src) = (buf, None)"
  show "parseUUID src = Inr buf"
    using hex_DecodeString_32(2) [OF length_dashless [OF l] d] l d
    by (simp add: parseUUID_def)
next
  fix buf e
  assume "length src = 36"
    and "hex_DecodeString (slice 0 8 src @ slice 9 13 src @ slice 14 18 src
                 @ slice 19 23 src @ drop 24 src) = (buf, Some e)"
  then show "parseUUID src = Inl e" by (simp add: parseUUID_def)
next
  assume l: "length src = 32"
  have "(\<forall>c\<in>set src. is_hex_digit c) \<longleftrightarrow> (\<forall>i<32. is_hex_digit (src ! i))"
    using l by (auto simp: all_set_conv_all_nth)
  then show "(\<exists>b. parseUUID src = Inr b) \<longleftrightarrow> (\<forall>i<32. is_hex_digit (src ! i))"
    using parse_hex_32 [OF l] l by (simp add: parseUUID_def)
next
  fix buf
  assume l: "length src = 32" and d: "hex_DecodeString src = (buf, None)"
  show "parseUUID src = Inr buf"
    using hex_DecodeString_32(2) [OF l d] l d by (simp add: parseUUID_def)
next
  fix buf e
  assume "length src = 32" and "hex_DecodeString src = (buf, Some e)"
  then show "parseUUID src = Inl e" by (simp add: parseUUID_def)
qed

lemma hex_digits_wrong_dashes:
  "\<forall>i<36. i \<notin> {8, 13, 18, 23} \<longrightarrow> is_hex_digit (''a0eebc99x9c0b+4ef8 bb6d_6bb9bd380a11'' ! i)"
  by (simp add: eval_nat_numeral All_less_Suc is_hex_digit_def)

lemma decode_upper:
  "hex_DecodeString ''A0EEBC999C0B4EF8BB6D6BB9BD380A11'' =
     ([0xa0,0xee,0xbc,0x99,0x9c,0x0b,0x4e,0xf8,0xbb,0x6d,0x6b,0xb9,0xbd,0x38,0x0a,0x11], None)"
  by code_simp

lemma decode_bad:
  "hex_DecodeString (slice 0 8 ''a0eebc99-9c0b-4ef8-bb6d-6bb9bd380a1g''
      @ slice 9 13 ''a0eebc99-9c0b-4ef8-bb6d-6bb9bd380a1g''
      @ slice 14 18 ''a0eebc99-9c0b-4ef8-bb6d-6bb9bd380a1g''
      @ slice 19 23 ''a0eebc99-9c0b-4ef8-bb6d-6bb9bd380a1g''
      @ drop 24 ''a0eebc99-9c0b-4ef8-bb6d-6bb9bd380a1g'') =
     ([0xa0,0xee,0xbc,0x99,0x9c,0x0b,0x4e,0xf8,0xbb,0x6d,0x6b,0xb9,0xbd,0x38,0x0a], Some (InvalidByteError 0x67))"
  by code_simp

theorem parseUUID_lengths_witness:
  "parseUUID ''abc'' = Inl (Errorf ''cannot parse UUID abc'') \<and>
   (\<exists>b. parseUUID ''a0eebc99x9c0b+4ef8 bb6d_6bb9bd380a11'' = Inr b) \<and>
   parseUUID ''A0EEBC999C0B4EF8BB6D6BB9BD380A11'' =
     Inr [0xa0,0xee,0xbc,0x99,0x9c,0x0b,0x4e,0xf8,0xbb,0x6d,0x6b,0xb9,0xbd,0x38,0x0a,0x11] \<and>
   parseUUID ''a0eebc99-9c0b-4ef8-bb6d-6bb9bd380a1g'' = Inl (InvalidByteError 0x67)"
  using parseUUID_lengths [of "''abc''"]
    parseUUID_lengths [of "''a0eebc99x9c0b+4ef8 bb6d_6bb9bd380a11''"] hex_digits_wrong_dashes
    parseUUID_lengths [of "''A0EEBC999C0B4EF8BB6D6BB9BD380A11''"] decode_upper
    parseUUID_lengths [of "''a0eebc99-9c0b-4ef8-bb6d-6bb9bd380a1g''"] decode_bad
  by simp

text \<open>
  C2 as stated fails: the error for a text of three characters is
  \<open>cannot parse UUID abc\<close>, in which the length 3 does not occur.
\<close>

theorem parseUUID_error_text_counterexample:
  "parseUUID ''abc'' = Inl (Errorf ''cannot parse UUID abc'') \<and>
   \<not> sublist (decimal (length ''abc'')) ''cannot parse UUID abc''"
  by code_simp

section \<open>Decoding and ingestion\<close>

lemma string_of_bytes_of: "string_of (bytes_of s) = s"
  by (simp add: string_of_def bytes_of_def unat_of_char o_def)

lemma length_bytes_of: "length (bytes_of s) = length s"
  by (simp add: bytes_of_def)

lemma Set_INil: "Set fw INil dst = Some (Return (None, setNil dst))"
  by (subst Set.simps) simp

lemma Set_IString: "Set fw (IString s) dst = Some (Return (setString s dst))"
  by (subst Set.simps) (simp add: unwrapped_def)

lemma Set_IByteSlice: "Set fw (IByteSlice v) dst = Some (Return (setByteSlice v dst))"
  by (subst Set.simps) (simp add: unwrapped_def)

lemma Set_IByteArray: "Set fw (IByteArray v) dst = Some (Return (None, setByteArray v dst))"
  by (subst Set.simps) (simp add: unwrapped_def)

text \<open>
  C3. \<open>DecodeText\<close> and \<open>DecodeBinary\<close> with a nil payload make the container invalid
  and succeed. A payload that is not nil must have exactly 36 bytes for \<open>DecodeText\<close>,
  which then parses it, and exactly 16 bytes for \<open>DecodeBinary\<close>, which then stores it;
  a payload of any other length gives the error \<open>invalid length for UUID\<close> with the
  length in decimal.
\<close>

theorem wire_decoding_lengths:
  "DecodeText None dst = (None, setNil dst) \<and>
   DecodeBinary None dst = (None, setNil dst) \<and>
   \<not> Valid (setNil dst) \<and>
   (length bs \<noteq> 36 \<longrightarrow>
      DecodeText (Some bs) dst =
        (Some (Errorf (''invalid length for UUID: '' @ decimal (length bs))), dst)) \<and>
   (length bs = 36 \<longrightarrow>
      DecodeText (Some bs) dst =
        (case parseUUID (string_of bs) of
           Inl err \<Rightarrow> (Some err, dst)
         | Inr buf \<Rightarrow> (None, dst\<lparr>Bytes := buf, Valid := True\<rparr>))) \<and>
   (length bs \<noteq> 16 \<longrightarrow>
      DecodeBinary (Some bs) dst =
        (Some (Errorf (''invalid length for UUID: '' @ decimal (length bs))), dst)) \<and>
   (length bs = 16 \<and> length (Bytes dst) = 16 \<longrightarrow>
      DecodeBinary (Some bs) dst = (None, dst\<lparr>Bytes := bs, Valid := True\<rparr>))"
  by (simp add: DecodeText_def DecodeBinary_def setNil_def setByteSlice_def setByteArray_def
        copy_bytes_def split: sum.splits)

theorem wire_decoding_lengths_witness:
  "DecodeText (Some (replicate 35 0x30)) empty_UUID =
     (Some (Errorf ''invalid length for UUID: 35''), empty_UUID) \<and>
   DecodeText (Some (replicate 37 0x30)) empty_UUID =
     (Some (Errorf ''invalid length for UUID: 37''), empty_UUID) \<and>
   DecodeText (Some (bytes_of ''a0eebc99-9c0b-4ef8-bb6d-6bb9bd380a11'')) empty_UUID =
     (None, empty_UUID\<lparr>Bytes := [0xa0,0xee,0xbc,0x99,0x9c,0x0b,0x4e,0xf8,0xbb,0x6d,0x6b,0xb9,0xbd,0x38,0x0a,0x11],
                       Valid := True\<rparr>) \<and>
   DecodeBinary (Some (replicate 15 7)) empty_UUID =
     (Some (Errorf ''invalid length for UUID: 15''), empty_UUID) \<and>
   DecodeBinary (Some (replicate 17 7)) empty_UUID =
     (Some (Errorf ''invalid length for UUID: 17''), empty_UUID) \<and>
   DecodeBinary (Some (replicate 16 7)) empty_UUID =
     (None, empty_UUID\<lparr>Bytes := replicate 16 7, Valid := True\<rparr>)"
proof -
  have d: "decimal 35 = ''35''" "decimal 37 = ''37''" "decimal 15 = ''15''" "decimal 17 = ''17''"
    by code_simp+
  have p: "parseUUID ''a0eebc99-9c0b-4ef8-bb6d-6bb9bd380a11'' =
     Inr [0xa0,0xee,0xbc,0x99,0x9c,0x0b,0x4e,0xf8,0xbb,0x6d,0x6b,0xb9,0xbd,0x38,0x0a,0x11]"
    by code_simp
  have e: "length (Bytes empty_UUID) = 16" by (simp add: empty_UUID_def)
  show ?thesis
    using wire_decoding_lengths [of empty_UUID "replicate 35 0x30"]
      wire_decoding_lengths [of empty_UUID "replicate 37 0x30"]
      wire_decoding_lengths [of empty_UUID "bytes_of ''a0eebc99-9c0b-4ef8-bb6d-6bb9bd380a11''"]
      wire_decoding_lengths [of empty_UUID "replicate 15 7"]
      wire_decoding_lengths [of empty_UUID "replicate 17 7"]
      wire_decoding_lengths [of empty_UUID "replicate 16 7"]
    by (simp add: d p e string_of_bytes_of length_bytes_of)
qed

text \<open>
  C4. \<open>UnmarshalJSON\<close> on the four bytes \<open>null\<close> does \<open>Set(nil)\<close>: the container becomes
  invalid. Any other input that has not exactly 38 bytes fails with the error
  \<open>invalid length for UUID\<close> and the length in decimal. On an input of 38 bytes the
  first and the last byte are dropped, whatever they are, and the 36 bytes between them
  are given to \<open>Set\<close> as a string.
\<close>

theorem UnmarshalJSON_lengths:
  "UnmarshalJSON fw (Some (bytes_of ''null'')) dst = Some (Return (None, setNil dst)) \<and>
   \<not> Valid (setNil dst) \<and>
   (elems src \<noteq> bytes_of ''null'' \<and> length (elems src) \<noteq> 38 \<longrightarrow>
      UnmarshalJSON fw src dst =
        Some (Return (Some (Errorf (''invalid length for UUID: '' @ decimal (length (elems src)))), dst))) \<and>
   (length (elems src) = 38 \<longrightarrow>
      UnmarshalJSON fw src dst = Set fw (IString (string_of (slice 1 37 (elems src)))) dst \<and>
      Set fw (IString (string_of (slice 1 37 (elems src)))) dst =
        Some (Return (setString (string_of (slice 1 37 (elems src))) dst)) \<and>
      length (string_of (slice 1 37 (elems src))) = 36)"
proof (intro conjI impI)
  show "UnmarshalJSON fw (Some (bytes_of ''null'')) dst = Some (Return (None, setNil dst))"
    by (simp add: UnmarshalJSON_def Set_INil)
  show "\<not> Valid (setNil dst)" by (simp add: setNil_def)
next
  assume "elems src \<noteq> bytes_of ''null'' \<and> length (elems src) \<noteq> 38"
  then show "UnmarshalJSON fw src dst =
        Some (Return (Some (Errorf (''invalid length for UUID: '' @ decimal (length (elems src)))), dst))"
    by (simp add: UnmarshalJSON_def)
next
  assume l: "length (elems src) = 38"
  then have "elems src \<noteq> bytes_of ''null''" by (auto simp: bytes_of_def)
  with l show "UnmarshalJSON fw src dst = Set fw (IString (string_of (slice 1 37 (elems src)))) dst"
    by (simp add: UnmarshalJSON_def)
  show "Set fw (IString (string_of (slice 1 37 (elems src)))) dst =
        Some (Return (setString (string_of (slice 1 37 (elems src))) dst))"
    by (rule Set_IString)
  from l show "length (string_of (slice 1 37 (elems src))) = 36"
    by (simp add: string_of_def slice_def)
qed

lemma json_quoted:
  "string_of (slice (Suc 0) 37 (bytes_of ''xa0eebc99-9c0b-4ef8-bb6d-6bb9bd380a11y'')) =
     ''a0eebc99-9c0b-4ef8-bb6d-6bb9bd380a11''"
  by code_simp

theorem UnmarshalJSON_lengths_witness:
  "UnmarshalJSON bare (Some (replicate 37 0x22)) empty_UUID =
     Some (Return (Some (Errorf ''invalid length for UUID: 37''), empty_UUID)) \<and>
   UnmarshalJSON bare (Some (replicate 39 0x22)) empty_UUID =
     Some (Return (Some (Errorf ''invalid length for UUID: 39''), empty_UUID)) \<and>
   UnmarshalJSON bare (Some (bytes_of ''xa0eebc99-9c0b-4ef8-bb6d-6bb9bd380a11y'')) empty_UUID =
     Some (Return (None, empty_UUID\<lparr>Bytes := [0xa0,0xee,0xbc,0x99,0x9c,0x0b,0x4e,0xf8,0xbb,0x6d,0x6b,0xb9,0xbd,0x38,0x0a,0x11],
                            Valid := True\<rparr>))"
proof -
  have d: "decimal 37 = ''37''" "decimal 39 = ''39''"
    by code_simp+
  have n: "replicate 37 (0x22::byte) \<noteq> bytes_of ''null''" "replicate 39 (0x22::byte) \<noteq> bytes_of ''null''"
    by (auto simp: bytes_of_def dest: arg_cong [where f = length])
  have p: "parseUUID ''a0eebc99-9c0b-4ef8-bb6d-6bb9bd380a11'' =
     Inr [0xa0,0xee,0xbc,0x99,0x9c,0x0b,0x4e,0xf8,0xbb,0x6d,0x6b,0xb9,0xbd,0x38,0x0a,0x11]"
    by code_simp
  show ?thesis
    using UnmarshalJSON_lengths [of bare empty_UUID "Some (replicate 37 0x22)"]
      UnmarshalJSON_lengths [of bare empty_UUID "Some (replicate 39 0x22)"]
      UnmarshalJSON_lengths [of bare empty_UUID "Some (bytes_of ''xa0eebc99-9c0b-4ef8-bb6d-6bb9bd380a11y'')"]
    by (simp add: d n p json_quoted length_bytes_of setString_def setByteArray_def)
qed

text \<open>
  C5. For a valid container \<open>v\<close> the text encoder appends the canonical text to the
  buffer and the binary encoder appends the 16 bytes (with a nil buffer the output is
  exactly these bytes); the text decoder on the text and the binary decoder on the bytes
  leave a container with the bytes and the validity of \<open>v\<close>.
\<close>

theorem codec_roundtrip:
  assumes "Valid v" and "length (Bytes v) = 16"
  shows "EncodeText v buf = (Some (elems buf @ bytes_of (encodeUUID (Bytes v))), None) \<and>
         DecodeText (Some (bytes_of (encodeUUID (Bytes v)))) d =
           (None, d\<lparr>Bytes := Bytes v, Valid := Valid v\<rparr>) \<and>
         EncodeBinary v buf = (Some (elems buf @ Bytes v), None) \<and>
         (length (Bytes d) = 16 \<longrightarrow>
            DecodeBinary (Some (Bytes v)) d = (None, d\<lparr>Bytes := Bytes v, Valid := Valid v\<rparr>))"
proof -
  have ne: "bytes_of (encodeUUID (Bytes v)) \<noteq> []" "Bytes v \<noteq> []"
    using length_encodeUUID [OF assms(2)] assms(2) by (auto simp: bytes_of_def)
  show ?thesis
    using assms ne
    by (simp add: EncodeText_def EncodeBinary_def append_def DecodeText_def DecodeBinary_def
          length_bytes_of length_encodeUUID string_of_bytes_of parseUUID_encodeUUID
          setByteArray_def setByteSlice_def copy_bytes_def)
qed

text \<open>
  C8. \<open>Set\<close> with a byte slice: a nil slice makes the container invalid without error;
  a slice of exactly 16 bytes is stored and the container is valid; a slice of any other
  length fails with an error whose message ends with the length in decimal, and the
  container is as before.
\<close>

theorem Set_byte_slice:
  "Set fw (IByteSlice None) dst = Some (Return (None, setNil dst)) \<and>
   \<not> Valid (setNil dst) \<and>
   (length bs = 16 \<and> length (Bytes dst) = 16 \<longrightarrow>
      Set fw (IByteSlice (Some bs)) dst = Some (Return (None, dst\<lparr>Bytes := bs, Valid := True\<rparr>))) \<and>
   (length bs \<noteq> 16 \<longrightarrow>
      Set fw (IByteSlice (Some bs)) dst =
        Some (Return (Some (Errorf (''[]byte must be 16 bytes to convert to UUID: '' @ decimal (length bs))), dst)))"
  by (simp add: Set_IByteSlice setByteSlice_def setNil_def copy_bytes_def)

theorem codec_roundtrip_witness:
  "EncodeText (empty_UUID\<lparr>Bytes := [0xa0,0xee,0xbc,0x99,0x9c,0x0b,0x4e,0xf8,0xbb,0x6d,0x6b,0xb9,0xbd,0x38,0x0a,0x11],
                            Valid := True\<rparr>) None =
     (Some (bytes_of ''a0eebc99-9c0b-4ef8-bb6d-6bb9bd380a11''), None) \<and>
   DecodeText (Some (bytes_of ''a0eebc99-9c0b-4ef8-bb6d-6bb9bd380a11'')) empty_UUID =
     (None, empty_UUID\<lparr>Bytes := [0xa0,0xee,0xbc,0x99,0x9c,0x0b,0x4e,0xf8,0xbb,0x6d,0x6b,0xb9,0xbd,0x38,0x0a,0x11],
                       Valid := True\<rparr>) \<and>
   EncodeBinary (empty_UUID\<lparr>Bytes := [0xa0,0xee,0xbc,0x99,0x9c,0x0b,0x4e,0xf8,0xbb,0x6d,0x6b,0xb9,0xbd,0x38,0x0a,0x11],
                              Valid := True\<rparr>) None =
     (Some [0xa0,0xee,0xbc,0x99,0x9c,0x0b,0x4e,0xf8,0xbb,0x6d,0x6b,0xb9,0xbd,0x38,0x0a,0x11], None) \<and>
   DecodeBinary (Some [0xa0,0xee,0xbc,0x99,0x9c,0x0b,0x4e,0xf8,0xbb,0x6d,0x6b,0xb9,0xbd,0x38,0x0a,0x11]) empty_UUID =
     (None, empty_UUID\<lparr>Bytes := [0xa0,0xee,0xbc,0x99,0x9c,0x0b,0x4e,0xf8,0xbb,0x6d,0x6b,0xb9,0xbd,0x38,0x0a,0x11],
                       Valid := True\<rparr>)"
proof -
  have e: "length (Bytes empty_UUID) = 16" by (simp add: empty_UUID_def)
  show ?thesis
    using codec_roundtrip [of "empty_UUID\<lparr>Bytes := [0xa0,0xee,0xbc,0x99,0x9c,0x0b,0x4e,0xf8,0xbb,0x6d,0x6b,0xb9,0xbd,0x38,0x0a,0x11],
                            Valid := True\<rparr>" None empty_UUID]
    by (simp add: e encodeUUID_example)
qed

theorem Set_byte_slice_witness:
  "Set bare (IByteSlice (Some [1,2,3,4,5,6,7,8,9,10,11,12,13,14,15,16])) empty_UUID =
     Some (Return (None, empty_UUID\<lparr>Bytes := [1,2,3,4,5,6,7,8,9,10,11,12,13,14,15,16], Valid := True\<rparr>)) \<and>
   Get (empty_UUID\<lparr>Bytes := [1,2,3,4,5,6,7,8,9,10,11,12,13,14,15,16], Valid := True\<rparr>) =
     IByteArray [1,2,3,4,5,6,7,8,9,10,11,12,13,14,15,16] \<and>
   Set bare (IByteSlice (Some [1,2])) empty_UUID =
     Some (Return (Some (Errorf ''[]byte must be 16 bytes to convert to UUID: 2''), empty_UUID))"
proof -
  have e: "length (Bytes empty_UUID) = 16" by (simp add: empty_UUID_def)
  have d: "decimal (Suc (Suc 0)) = ''2''" by code_simp
  have g: "Get (empty_UUID\<lparr>Bytes := [1,2,3,4,5,6,7,8,9,10,11,12,13,14,15,16], Valid := True\<rparr>) =
     IByteArray [1,2,3,4,5,6,7,8,9,10,11,12,13,14,15,16]"
    by (simp add: Get_def empty_UUID_def)
  show ?thesis
    using Set_byte_slice [of bare empty_UUID "[1,2,3,4,5,6,7,8,9,10,11,12,13,14,15,16]"]
      Set_byte_slice [of bare empty_UUID "[1,2]"]
    by (simp add: e d g)
qed

section \<open>Recursion of \<open>Set\<close> and errors\<close>

lemma Set_error_unchanged:
  assumes "Set fw src dst = Some r"
  shows "\<forall>e d'. r = Return (Some e, d') \<longrightarrow> d' = dst"
  by (rule Set.raw_induct
        [where P = "\<lambda>fw src dst r. \<forall>e d'. r = Return (Some e, d') \<longrightarrow> d' = dst", OF _ assms])
     (auto simp: setByteSlice_def setString_def
        split: if_splits option.splits iface.splits sum.splits outcome.splits)

text \<open>
  C10. Whenever \<open>Set\<close>, \<open>DecodeText\<close>, \<open>DecodeBinary\<close> or \<open>UnmarshalJSON\<close> returns an
  error, the container is exactly as it was before the call.
\<close>

theorem errors_leave_container:
  "(Set fw src dst = Some (Return (Some e, d')) \<longrightarrow> d' = dst) \<and>
   (DecodeText b dst = (Some e, d') \<longrightarrow> d' = dst) \<and>
   (DecodeBinary b dst = (Some e, d') \<longrightarrow> d' = dst) \<and>
   (UnmarshalJSON fw b dst = Some (Return (Some e, d')) \<longrightarrow> d' = dst)"
proof (intro conjI impI)
  assume "Set fw src dst = Some (Return (Some e, d'))"
  from Set_error_unchanged [OF this] show "d' = dst" by simp
next
  assume "DecodeText b dst = (Some e, d')"
  then show "d' = dst"
    by (auto simp: DecodeText_def split: option.splits if_splits sum.splits)
next
  assume "DecodeBinary b dst = (Some e, d')"
  then show "d' = dst"
    by (auto simp: DecodeBinary_def setByteSlice_def split: option.splits if_splits)
next
  assume "UnmarshalJSON fw b dst = Some (Return (Some e, d'))"
  then show "d' = dst"
    by (auto simp: UnmarshalJSON_def dest: Set_error_unchanged split: if_splits)
qed

theorem errors_leave_container_witness:
  "Set bare (IString ''zz'') sample_UUID =
     Some (Return (Some (Errorf ''cannot parse UUID zz''), sample_UUID)) \<and>
   DecodeText (Some [1, 2]) sample_UUID = (Some (Errorf ''invalid length for UUID: 2''), sample_UUID) \<and>
   DecodeBinary (Some [1, 2]) sample_UUID = (Some (Errorf ''invalid length for UUID: 2''), sample_UUID) \<and>
   UnmarshalJSON bare (Some [1, 2]) sample_UUID =
     Some (Return (Some (Errorf ''invalid length for UUID: 2''), sample_UUID))"
proof -
  define s' where "s' = snd (case the (Set bare (IString ''zz'') sample_UUID) of Return x \<Rightarrow> x)"
  define t' where "t' = snd (DecodeText (Some [1, 2]) sample_UUID)"
  define b' where "b' = snd (DecodeBinary (Some [1, 2]) sample_UUID)"
  define j' where "j' = snd (case the (UnmarshalJSON bare (Some [1, 2]) sample_UUID) of Return x \<Rightarrow> x)"
  have d: "decimal (Suc (Suc 0)) = ''2''" by code_simp
  have s: "Set bare (IString ''zz'') sample_UUID =
      Some (Return (Some (Errorf ''cannot parse UUID zz''), s'))"
    by (simp add: s'_def Set_IString setString_def parseUUID_def)
  have t: "DecodeText (Some [1, 2]) sample_UUID = (Some (Errorf ''invalid length for UUID: 2''), t')"
    by (simp add: t'_def DecodeText_def d)
  have b: "DecodeBinary (Some [1, 2]) sample_UUID = (Some (Errorf ''invalid length for UUID: 2''), b')"
    by (simp add: b'_def DecodeBinary_def d)
  have j: "UnmarshalJSON bare (Some [1, 2]) sample_UUID =
      Some (Return (Some (Errorf ''invalid length for UUID: 2''), j'))"
    by (simp add: j'_def UnmarshalJSON_def d bytes_of_def)
  from errors_leave_container
         [of bare "IString ''zz''" sample_UUID "Errorf ''cannot parse UUID zz''" s'] s
  have 1: "s' = sample_UUID" by blast
  from errors_leave_container
         [of _ _ sample_UUID "Errorf ''invalid length for UUID: 2''" t' "Some [1, 2]"] t
  have 2: "t' = sample_UUID" by blast
  from errors_leave_container
         [of _ _ sample_UUID "Errorf ''invalid length for UUID: 2''" b' "Some [1, 2]"] b
  have 3: "b' = sample_UUID" by blast
  from errors_leave_container
         [of bare _ sample_UUID "Errorf ''invalid length for UUID: 2''" j' "Some [1, 2]"] j
  have 4: "j' = sample_UUID" by blast
  from s t b j show ?thesis unfolding 1 2 3 4 by blast
qed










section \<open>Null\<close>

text \<open>
  C7, as amended. \<open>Set(nil)\<close> makes the container invalid, and then \<open>Get()\<close> yields nil
  when the container has no getter override. An invalid container is encoded as no
  value by the text and the binary encoder (a nil buffer, no error) and as the four
  bytes \<open>null\<close> by \<open>MarshalJSON\<close>.
\<close>

theorem null_handling:
  "Set fw INil dst = Some (Return (None, setNil dst)) \<and>
   \<not> Valid (setNil dst) \<and>
   (Getter dst = None \<longrightarrow> Get (setNil dst) = INil) \<and>
   (\<not> Valid v \<longrightarrow>
      EncodeText v buf = (None, None) \<and>
      EncodeBinary v buf = (None, None) \<and>
      MarshalJSON v = (Some (bytes_of ''null''), None)) \<and>
   bytes_of ''null'' = [0x6e, 0x75, 0x6c, 0x6c]"
  by (simp add: Set_INil setNil_def Get_def EncodeText_def EncodeBinary_def MarshalJSON_def
        bytes_of_def)

theorem null_handling_witness:
  "Getter sample_UUID = None \<and> Get (setNil sample_UUID) = INil \<and>
   \<not> Valid (setNil sample_UUID) \<and>
   EncodeText (setNil sample_UUID) None = (None, None) \<and>
   EncodeBinary (setNil sample_UUID) None = (None, None) \<and>
   MarshalJSON (setNil sample_UUID) = (Some [0x6e, 0x75, 0x6c, 0x6c], None)"
proof -
  have g: "Getter sample_UUID = None" by (simp add: sample_UUID_def)
  have v: "\<not> Valid (setNil sample_UUID)" by (simp add: setNil_def)
  from null_handling [of bare sample_UUID "setNil sample_UUID" None] g v
  show ?thesis by simp
qed

text \<open>
  C7 as stated fails: on a container with a getter override, \<open>Get()\<close> after \<open>Set(nil)\<close>
  is what the override returns, here a string and not nil.
\<close>

theorem getter_override_counterexample:
  "Set bare INil overridden = Some (Return (None, setNil overridden)) \<and>
   Get (setNil overridden) = IString ''override'' \<and>
   Get (setNil overridden) \<noteq> INil"
  by (simp add: Set_INil Get_def setNil_def overridden_def)

section \<open>Extraction\<close>

lemma AssignTo_error_origin:
  assumes "AssignTo fw src dst st = Some r"
  shows "\<forall>e st'. r = Return (Some e, st') \<longrightarrow>
           (\<exists>d dst' st0. decoder_for fw src dst' = Some d \<and> DecodeUUID fw d src st0 = (Some e, st')) \<or>
           (\<exists>dst' st0. \<not> Valid src \<and> decoder_for fw src dst' = None \<and>
               NullAssignTo fw dst' st0 = (Some e, st'))"
  by (rule AssignTo.raw_induct
        [where P = "\<lambda>fw src dst st r. \<forall>e st'. r = Return (Some e, st') \<longrightarrow>
           (\<exists>d dst' st0. decoder_for fw src dst' = Some d \<and> DecodeUUID fw d src st0 = (Some e, st')) \<or>
           (\<exists>dst' st0. \<not> Valid src \<and> decoder_for fw src dst' = None \<and>
               NullAssignTo fw dst' st0 = (Some e, st'))", OF _ assms])
     (auto split: if_splits option.splits dest.splits prod.splits; blast)

text \<open>
  C6, as amended. When no decoder is resolved for the destination (the destination is
  no decoder itself and the container's decoder-wrapper resolver, if there is one,
  gives none), \<open>AssignTo\<close> of a valid container into a pointer to a string writes the
  canonical text through the pointer: 36 characters, the lowercase two-digit hexadecimal
  form of the 16 bytes in groups of 4, 2, 2, 2 and 6 bytes with dashes between. Under
  the same condition, for a destination of no known shape for which the framework offers
  no other destination type, it returns nil and the memory is as before. When a decoder
  is resolved the call is its \<open>DecodeUUID\<close>, and for an invalid container with no
  decoder it is the framework's \<open>NullAssignTo\<close>; every error that \<open>AssignTo\<close> returns
  is the error returned by one of these two, none is made by \<open>AssignTo\<close> itself.
\<close>

theorem AssignTo_cases:
  "(Valid src \<and> length (Bytes src) = 16 \<and> decoder_for fw src (DStringPtr (Some a)) = None \<longrightarrow>
      AssignTo fw src (DStringPtr (Some a)) st =
        Some (Return (None, st(a := CString
          (lowercase_hex (take 4 (Bytes src)) @ ''-'' @ lowercase_hex (take 2 (drop 4 (Bytes src)))
             @ ''-'' @ lowercase_hex (take 2 (drop 6 (Bytes src)))
             @ ''-'' @ lowercase_hex (take 2 (drop 8 (Bytes src)))
             @ ''-'' @ lowercase_hex (drop 10 (Bytes src)))))) \<and>
      length (lowercase_hex (take 4 (Bytes src)) @ ''-'' @ lowercase_hex (take 2 (drop 4 (Bytes src)))
             @ ''-'' @ lowercase_hex (take 2 (drop 6 (Bytes src)))
             @ ''-'' @ lowercase_hex (take 2 (drop 8 (Bytes src)))
             @ ''-'' @ lowercase_hex (drop 10 (Bytes src))) = 36) \<and>
   (Valid src \<and> decoder_for fw src (DObj n) = None \<and>
      GetAssignToDstType fw (DObj n) st = (None, st) \<longrightarrow>
      AssignTo fw src (DObj n) st = Some (Return (None, st))) \<and>
   (decoder_for fw src dst = Some d \<longrightarrow>
      AssignTo fw src dst st = Some (Return (DecodeUUID fw d src st))) \<and>
   (\<not> Valid src \<and> decoder_for fw src dst = None \<longrightarrow>
      AssignTo fw src dst st = Some (Return (NullAssignTo fw dst st))) \<and>
   (AssignTo fw src dst st = Some (Return (Some e, st')) \<longrightarrow>
      (\<exists>d dst' st0. decoder_for fw src dst' = Some d \<and> DecodeUUID fw d src st0 = (Some e, st')) \<or>
      (\<exists>dst' st0. \<not> Valid src \<and> decoder_for fw src dst' = None \<and>
          NullAssignTo fw dst' st0 = (Some e, st')))"
proof (intro conjI impI)
  assume h: "Valid src \<and> length (Bytes src) = 16 \<and> decoder_for fw src (DStringPtr (Some a)) = None"
  then have "AssignTo fw src (DStringPtr (Some a)) st =
        Some (Return (None, st(a := CString (encodeUUID (Bytes src)))))"
    by (subst AssignTo.simps) simp
  moreover from h have g: "encodeUUID (Bytes src) =
       lowercase_hex (take 4 (Bytes src)) @ ''-'' @ lowercase_hex (take 2 (drop 4 (Bytes src)))
             @ ''-'' @ lowercase_hex (take 2 (drop 6 (Bytes src)))
             @ ''-'' @ lowercase_hex (take 2 (drop 8 (Bytes src)))
             @ ''-'' @ lowercase_hex (drop 10 (Bytes src))"
    using encodeUUID_groups [of "Bytes src"] by (simp only: fmt_x_lowercase_hex)
  ultimately show "AssignTo fw src (DStringPtr (Some a)) st =
        Some (Return (None, st(a := CString
          (lowercase_hex (take 4 (Bytes src)) @ ''-'' @ lowercase_hex (take 2 (drop 4 (Bytes src)))
             @ ''-'' @ lowercase_hex (take 2 (drop 6 (Bytes src)))
             @ ''-'' @ lowercase_hex (take 2 (drop 8 (Bytes src)))
             @ ''-'' @ lowercase_hex (drop 10 (Bytes src))))))"
    by (simp only:)
  from h length_encodeUUID [of "Bytes src"]
  show "length (lowercase_hex (take 4 (Bytes src)) @ ''-'' @ lowercase_hex (take 2 (drop 4 (Bytes src)))
             @ ''-'' @ lowercase_hex (take 2 (drop 6 (Bytes src)))
             @ ''-'' @ lowercase_hex (take 2 (drop 8 (Bytes src)))
             @ ''-'' @ lowercase_hex (drop 10 (Bytes src))) = 36"
    by (simp only: g [symmetric])
next
  assume "Valid src \<and> decoder_for fw src (DObj n) = None \<and>
      GetAssignToDstType fw (DObj n) st = (None, st)"
  then show "AssignTo fw src (DObj n) st = Some (Return (None, st))"
    by (subst AssignTo.simps) simp
next
  assume "decoder_for fw src dst = Some d"
  then show "AssignTo fw src dst st = Some (Return (DecodeUUID fw d src st))"
    by (subst AssignTo.simps) simp
next
  assume "\<not> Valid src \<and> decoder_for fw src dst = None"
  then show "AssignTo fw src dst st = Some (Return (NullAssignTo fw dst st))"
    by (subst AssignTo.simps) simp
next
  assume "AssignTo fw src dst st = Some (Return (Some e, st'))"
  from AssignTo_error_origin [OF this]
  show "(\<exists>d dst' st0. decoder_for fw src dst' = Some d \<and> DecodeUUID fw d src st0 = (Some e, st')) \<or>
      (\<exists>dst' st0. \<not> Valid src \<and> decoder_for fw src dst' = None \<and>
          NullAssignTo fw dst' st0 = (Some e, st'))"
    by blast
qed

text \<open>
  C6 as stated fails twice. With a decoder-wrapper resolver on the container,
  \<open>AssignTo\<close> of a valid container into a pointer to a string is the call of the
  decoder it gives, and nothing is written through the pointer. And for an invalid
  container with no decoder resolved, the error of a failing \<open>NullAssignTo\<close> is
  returned, an error that no decoder object made.
\<close>

theorem AssignTo_decoders_only_counterexample:
  "Valid wrapped_UUID \<and>
   AssignTo bare wrapped_UUID (DStringPtr (Some 3)) blank = Some (Return (None, blank)) \<and>
   blank 3 \<noteq> CString ''a0eebc99-9c0b-4ef8-bb6d-6bb9bd380a11'' \<and>
   decoder_for null_failing empty_UUID (DStringPtr (Some 3)) = None \<and>
   AssignTo null_failing empty_UUID (DStringPtr (Some 3)) blank =
     Some (Return (Some (DelegateError 2), blank))"
proof -
  have w: "decoder_for bare wrapped_UUID (DStringPtr (Some 3)) = Some 9"
    by (simp add: decoder_for_def wrapped_UUID_def)
  have n: "decoder_for null_failing empty_UUID (DStringPtr (Some 3)) = None"
    by (simp add: decoder_for_def empty_UUID_def)
  have d: "DecodeUUID bare 9 wrapped_UUID blank = (None, blank)"
    "NullAssignTo null_failing (DStringPtr (Some 3)) blank = (Some (DelegateError 2), blank)"
    "\<not> Valid empty_UUID"
    by (simp_all add: bare_def null_failing_def empty_UUID_def)
  have 1: "AssignTo bare wrapped_UUID (DStringPtr (Some 3)) blank = Some (Return (None, blank))"
    by (subst AssignTo.simps) (simp add: w d)
  have 2: "AssignTo null_failing empty_UUID (DStringPtr (Some 3)) blank =
     Some (Return (Some (DelegateError 2), blank))"
    by (subst AssignTo.simps) (simp add: n d)
  show ?thesis using 1 2 n by (simp add: wrapped_UUID_def sample_UUID_def blank_def)
qed

lemma canonical_example:
  "lowercase_hex (take 4 (Bytes sample_UUID)) @ ''-'' @ lowercase_hex (take 2 (drop 4 (Bytes sample_UUID)))
     @ ''-'' @ lowercase_hex (take 2 (drop 6 (Bytes sample_UUID)))
     @ ''-'' @ lowercase_hex (take 2 (drop 8 (Bytes sample_UUID)))
     @ ''-'' @ lowercase_hex (drop 10 (Bytes sample_UUID)) = ''a0eebc99-9c0b-4ef8-bb6d-6bb9bd380a11''"
  by code_simp

theorem AssignTo_cases_witness:
  "AssignTo bare sample_UUID (DStringPtr (Some 3)) blank =
     Some (Return (None, blank(3 := CString ''a0eebc99-9c0b-4ef8-bb6d-6bb9bd380a11''))) \<and>
   AssignTo bare sample_UUID (DObj 5) blank = Some (Return (None, blank)) \<and>
   AssignTo failing sample_UUID (DObj 7) blank = Some (Return (Some (DelegateError 1), blank)) \<and>
   AssignTo null_failing empty_UUID (DObj 5) blank = Some (Return (Some (DelegateError 2), blank)) \<and>
   ((\<exists>d dst' st0. decoder_for failing sample_UUID dst' = Some d \<and>
        DecodeUUID failing d sample_UUID st0 = (Some (DelegateError 1), blank)) \<or>
    (\<exists>dst' st0. \<not> Valid sample_UUID \<and> decoder_for failing sample_UUID dst' = None \<and>
        NullAssignTo failing dst' st0 = (Some (DelegateError 1), blank)))"
proof -
  have v: "Valid sample_UUID" "length (Bytes sample_UUID) = 16" "\<not> Valid empty_UUID"
    by (simp_all add: sample_UUID_def empty_UUID_def)
  have d: "decoder_for bare sample_UUID (DStringPtr (Some 3)) = None"
    "decoder_for bare sample_UUID (DObj 5) = None"
    "GetAssignToDstType bare (DObj 5) blank = (None, blank)"
    "decoder_for null_failing empty_UUID (DObj 5) = None"
    "NullAssignTo null_failing (DObj 5) blank = (Some (DelegateError 2), blank)"
    by (simp_all add: decoder_for_def bare_def sample_UUID_def null_failing_def empty_UUID_def)
  have f: "decoder_for failing sample_UUID (DObj 7) = Some 7"
    "DecodeUUID failing 7 sample_UUID blank = (Some (DelegateError 1), blank)"
    by (simp_all add: decoder_for_def failing_def bare_def)
  note b = AssignTo_cases [of sample_UUID bare 3 blank 5 "DObj 7" 7 "DelegateError 1" blank]
  from b v d
  have "AssignTo bare sample_UUID (DStringPtr (Some 3)) blank =
     Some (Return (None, blank(3 := CString
       (lowercase_hex (take 4 (Bytes sample_UUID)) @ ''-''
          @ lowercase_hex (take 2 (drop 4 (Bytes sample_UUID)))
          @ ''-'' @ lowercase_hex (take 2 (drop 6 (Bytes sample_UUID)))
          @ ''-'' @ lowercase_hex (take 2 (drop 8 (Bytes sample_UUID)))
          @ ''-'' @ lowercase_hex (drop 10 (Bytes sample_UUID))))))"
    by blast
  then have 1: "AssignTo bare sample_UUID (DStringPtr (Some 3)) blank =
     Some (Return (None, blank(3 := CString ''a0eebc99-9c0b-4ef8-bb6d-6bb9bd380a11'')))"
    by (simp only: canonical_example)
  from b v d have 2: "AssignTo bare sample_UUID (DObj 5) blank = Some (Return (None, blank))"
    by blast
  note t = AssignTo_cases [of sample_UUID failing 3 blank 5 "DObj 7" 7 "DelegateError 1" blank]
  from t f have 3: "AssignTo failing sample_UUID (DObj 7) blank =
      Some (Return (Some (DelegateError 1), blank))"
    by simp
  from AssignTo_cases [of empty_UUID null_failing 3 blank 5 "DObj 5" 7 "DelegateError 2" blank] v d
  have 4: "AssignTo null_failing empty_UUID (DObj 5) blank =
      Some (Return (Some (DelegateError 2), blank))"
    by simp
  from t 3
  have 5: "(\<exists>d dst' st0. decoder_for failing sample_UUID dst' = Some d \<and>
        DecodeUUID failing d sample_UUID st0 = (Some (DelegateError 1), blank)) \<or>
    (\<exists>dst' st0. \<not> Valid sample_UUID \<and> decoder_for failing sample_UUID dst' = None \<and>
        NullAssignTo failing dst' st0 = (Some (DelegateError 1), blank))"
    by blast
  from 1 2 3 4 5 show ?thesis by blast
qed

end
